theory Spec2Isabelle
  imports Complex_Main
begin

section \<open>The slit quadrangle of tdsplotslit.py\<close>

text \<open>
  The development embeds \<^verbatim>\<open>src/bin/tdsplotslit.py\<close>: the constructor of
  \<^verbatim>\<open>mySlit\<close>, which computes the vertices of a rotated latitude-longitude quadrangle,
  and the part of \<^verbatim>\<open>main\<close> that builds the slit centre and the two patches.

  Numbers are real numbers: the arithmetic of numpy's float64 is read as exact arithmetic,
  so rounding, infinities and NaN are outside the model. One-dimensional arrays are lists,
  two-dimensional arrays are lists of rows. Exceptions are values of the type \<open>error\<close>
  on the left of a sum. The constructor is followed up to its call of the base class
  \<^verbatim>\<open>Polygon\<close>, which belongs to matplotlib.
\<close>

subsection \<open>Angular quantities (astropy.units)\<close>

datatype angle_unit = Rad | Deg | Arcmin | Arcsec | Hourangle

text \<open>The size of a unit in radians, as astropy defines the angular units: a degree is
  \<open>pi / 180\<close> radians, an arc minute a 60th and an arc second a 3600th of a degree, an
  hour angle 15 degrees.\<close>

fun unit_scale :: "angle_unit \<Rightarrow> real" where
  "unit_scale Rad = 1"
| "unit_scale Deg = pi / 180"
| "unit_scale Arcmin = pi / 180 / 60"
| "unit_scale Arcsec = pi / 180 / 3600"
| "unit_scale Hourangle = 15 * (pi / 180)"

type_synonym quantity = "real \<times> angle_unit"

text \<open>\<^verbatim>\<open>q.to_value(unit)\<close>: the value is returned as it is when the unit does not change
  and is scaled otherwise.\<close>

fun to_value :: "quantity \<Rightarrow> angle_unit \<Rightarrow> real" where
  "to_value (v, u) u' = (if u = u' then v else v * (unit_scale u / unit_scale u'))"

text \<open>\<^verbatim>\<open>u.Quantity(anchor)\<close> for a pair of quantities: a two-element array in the unit
  of the first one.\<close>

fun Quantity_pair :: "quantity \<times> quantity \<Rightarrow> (real \<times> real) \<times> angle_unit" where
  "Quantity_pair (a, b) = ((fst a, to_value b (snd a)), snd a)"

fun to_value_pair :: "(real \<times> real) \<times> angle_unit \<Rightarrow> angle_unit \<Rightarrow> real \<times> real" where
  "to_value_pair ((x, y), u) u' = (to_value (x, u) u', to_value (y, u) u')"

text \<open>\<^verbatim>\<open>a += b\<close> on quantities: the sum in the unit of the left operand.\<close>

fun quantity_add :: "quantity \<Rightarrow> quantity \<Rightarrow> quantity" where
  "quantity_add (v, u) b = (v + to_value b u, u)"

subsection \<open>Array operations (numpy)\<close>

datatype error = ValueError | IndexError

text \<open>\<^verbatim>\<open>np.linspace(start, stop, num)\<close> with the end point included: a negative
  \<open>num\<close> raises ValueError; otherwise \<open>arange(0, num)\<close> is scaled by the step, shifted by
  \<open>start\<close>, and the last sample is overwritten by \<open>stop\<close> when there is more than one.\<close>

definition np_linspace :: "real \<Rightarrow> real \<Rightarrow> int \<Rightarrow> error + real list" where
  "np_linspace start stop num =
     (if num < 0 then Inl ValueError
      else
        let n = nat num;
            dv = real_of_int (num - 1);
            delta = stop - start;
            y = map real [0..<n];
            step = delta / dv;
            y = (if dv > 0
                 then (if step = 0 then map (\<lambda>k. k / dv * delta) y
                       else map (\<lambda>k. k * step) y)
                 else map (\<lambda>k. k * delta) y);
            y = map (\<lambda>k. k + start) y
        in Inr (if 1 < n then y[n - 1 := stop] else y))"

text \<open>\<^verbatim>\<open>a[-1]\<close> and \<^verbatim>\<open>a[0]\<close> raise IndexError on an empty array.\<close>

definition index_last :: "real list \<Rightarrow> error + real" where
  "index_last a = (if a = [] then Inl IndexError else Inr (last a))"

definition index_first :: "real list \<Rightarrow> error + real" where
  "index_first a = (if a = [] then Inl IndexError else Inr (hd a))"

text \<open>\<^verbatim>\<open>np.repeat(x, n)\<close> for a scalar: a negative count raises ValueError.\<close>

definition np_repeat :: "real \<Rightarrow> int \<Rightarrow> error + real list" where
  "np_repeat x n = (if n < 0 then Inl ValueError else Inr (replicate (nat n) x))"

text \<open>Sequencing of computations that may raise.\<close>

definition bind_err :: "error + 'a \<Rightarrow> ('a \<Rightarrow> error + 'b) \<Rightarrow> error + 'b" where
  "bind_err m f = (case m of Inl e \<Rightarrow> Inl e | Inr v \<Rightarrow> f v)"

text \<open>\<^verbatim>\<open>m - c\<close> and \<^verbatim>\<open>m + c\<close> for a matrix \<open>m\<close> of shape (k, N) and a column \<open>c\<close> of
  shape (k, 1): broadcasting applies the operation to every element of row \<open>i\<close> with the
  single element of row \<open>i\<close> of \<open>c\<close>.\<close>

definition broadcast_col ::
  "(real \<Rightarrow> real \<Rightarrow> real) \<Rightarrow> real list list \<Rightarrow> real list list \<Rightarrow> real list list" where
  "broadcast_col f m c = map2 (\<lambda>row crow. map (\<lambda>x. f x (crow ! 0)) row) m c"

text \<open>\<^verbatim>\<open>a @ b\<close>: the matrix product, every row of \<open>a\<close> with every column of \<open>b\<close>. The
  columns of \<open>b\<close> are indexed by the length of its first row.\<close>

definition column :: "real list list \<Rightarrow> nat \<Rightarrow> real list" where
  "column m j = map (\<lambda>row. row ! j) m"

definition ncols :: "real list list \<Rightarrow> nat" where
  "ncols m = (case m of [] \<Rightarrow> 0 | row # _ \<Rightarrow> length row)"

definition dot :: "real list \<Rightarrow> real list \<Rightarrow> real" where
  "dot xs ys = sum_list (map2 (*) xs ys)"

definition matmul :: "real list list \<Rightarrow> real list list \<Rightarrow> real list list" where
  "matmul a b = map (\<lambda>row. map (\<lambda>j. dot row (column b j)) [0..<ncols b]) a"

text \<open>\<^verbatim>\<open>m.T\<close>: the rows of the result are the columns of \<open>m\<close>.\<close>

definition np_T :: "real list list \<Rightarrow> real list list" where
  "np_T m = map (column m) [0..<ncols m]"

subsection \<open>mySlit.__init__\<close>

text \<open>Lines 62 to 77: the progressions in longitude and latitude and the path of the
  quadrangle, an array of shape (2, 4 * resolution) with the longitudes in the first row
  and the latitudes in the second. The elements of each \<^verbatim>\<open>np.concatenate\<close> argument are
  evaluated from left to right.\<close>

definition trace_path ::
  "real \<Rightarrow> real \<Rightarrow> real \<Rightarrow> real \<Rightarrow> int \<Rightarrow> error + real list list" where
  "trace_path longitude latitude width height resolution =
     bind_err (np_linspace 0 width (resolution + 1)) (\<lambda>ls.
     bind_err (np_linspace 0 height (resolution + 1)) (\<lambda>ts.
       let lon_seq = map (\<lambda>x. longitude + x) ls;
           lat_seq = map (\<lambda>x. latitude + x) ts
       in
     bind_err (index_last lon_seq) (\<lambda>lon_last.
     bind_err (np_repeat lon_last resolution) (\<lambda>lon_right.
     bind_err (index_first lon_seq) (\<lambda>lon_first.
     bind_err (np_repeat lon_first resolution) (\<lambda>lon_left.
     bind_err (index_first lat_seq) (\<lambda>lat_first.
     bind_err (np_repeat lat_first resolution) (\<lambda>lat_bottom.
     bind_err (index_last lat_seq) (\<lambda>lat_last.
     bind_err (np_repeat lat_last resolution) (\<lambda>lat_top.
       let lon = concat [butlast lon_seq, lon_right, rev (tl lon_seq), lon_left];
           lat = concat [lat_bottom, butlast lat_seq, lat_top, rev (tl lat_seq)]
       in Inr [lon, lat]))))))))))"

text \<open>Lines 79 to 81: the rotation matrix.\<close>

definition rot_matrix :: "real \<Rightarrow> real list list" where
  "rot_matrix theta = [[cos theta, sin theta], [- sin theta, cos theta]]"

text \<open>Lines 83 to 87: the rotation about the centre, for a matrix \<open>m\<close> in place of the
  rotation matrix. \<open>center\<close> is the array of shape (1, 2) of line 50.\<close>

definition rotate_with ::
  "real list list \<Rightarrow> real list list \<Rightarrow> real list list \<Rightarrow> real list list" where
  "rotate_with m center vertices =
     (let vertices = broadcast_col (-) vertices (np_T center);
          vertices = matmul m vertices;
          vertices = broadcast_col (+) vertices (np_T center);
          vertices = np_T vertices
      in vertices)"

definition rotate_quadrangle :: "real \<Rightarrow> real list list \<Rightarrow> real list list \<Rightarrow> real list list" where
  "rotate_quadrangle theta center vertices = rotate_with (rot_matrix theta) center vertices"

text \<open>The constructor up to the call of the base class: the vertices handed to
  \<^verbatim>\<open>Polygon.__init__\<close>, an array of shape (4 * resolution, 2).\<close>

definition mySlit ::
  "quantity \<times> quantity \<Rightarrow> quantity \<Rightarrow> quantity \<Rightarrow> quantity \<Rightarrow> int \<Rightarrow> angle_unit
     \<Rightarrow> error + real list list" where
  "mySlit anchor width height theta resolution vertex_unit =
     (let (lon_c, lat_c) = to_value_pair (Quantity_pair anchor) vertex_unit;
          center = [[lon_c, lat_c]];
          theta = to_value theta Rad;
          width = to_value width vertex_unit;
          height = to_value height vertex_unit;
          longitude = lon_c - width * 0.5;
          latitude = lat_c - height * 0.5
      in bind_err (trace_path longitude latitude width height resolution) (\<lambda>vertices.
           Inr (rotate_quadrangle theta center vertices)))"

subsection \<open>main\<close>

text \<open>What \<^verbatim>\<open>main\<close> reads: the header of the spectrum with the values that
  \<^verbatim>\<open>Angle\<close> parses from its RA string (in hours) and its DEC string (in degrees) and
  with its position angle, and the two corrections of the command line. Reading the
  files, parsing the strings and drawing are the work of astropy and matplotlib.\<close>

record header =
  RA :: real
  DEC :: real
  POSANG :: real

record pargs =
  ra_corr :: real
  dec_corr :: real

text \<open>A patch on the axes: its vertices and the colour of its edge.\<close>

record patch =
  xy :: "real list list"
  edgecolor :: string

text \<open>Lines 113 to 115: the centre of the slit.\<close>

definition radec_slit :: "header \<Rightarrow> pargs \<Rightarrow> quantity \<times> quantity" where
  "radec_slit hdr args =
     (let radec = ((RA hdr, Hourangle), (DEC hdr, Deg));
          radec = (fst radec, quantity_add (snd radec) (ra_corr args, Arcsec));
          radec = (quantity_add (fst radec) (dec_corr args, Arcsec), snd radec)
      in radec)"

text \<open>Lines 113 to 131: the patches added to the axes, in the order of the calls of
  \<^verbatim>\<open>ax.add_patch\<close>.\<close>

definition main :: "header \<Rightarrow> pargs \<Rightarrow> error + patch list" where
  "main hdr args =
     (let radec = radec_slit hdr args;
          PA = POSANG hdr
      in bind_err (mySlit radec (1.0, Arcsec) (3.0, Arcmin) (PA, Deg) 100 Deg) (\<lambda>s.
         let patches = [\<lparr>xy = s, edgecolor = ''tab:olive''\<rparr>]
         in bind_err (mySlit radec (0.1, Arcsec) (0.1, Arcmin) (PA + 90, Deg) 100 Deg) (\<lambda>c.
              Inr (patches @ [\<lparr>xy = c, edgecolor = ''red''\<rparr>]))))"

section \<open>The specification's notions\<close>

text \<open>The rotation of the specification for one vertex \<open>(x, y)\<close> and the centre
  \<open>(cx, cy)\<close>: \<open>v' = R(theta) (v - center) + center\<close> with the matrix
  \<open>[[cos theta, sin theta], [- sin theta, cos theta]]\<close> applied to the column vector.\<close>

definition rotated_vertex :: "real \<Rightarrow> real \<Rightarrow> real \<Rightarrow> real \<Rightarrow> real \<Rightarrow> real list" where
  "rotated_vertex theta cx cy x y =
     [cos theta * (x - cx) + sin theta * (y - cy) + cx,
      - sin theta * (x - cx) + cos theta * (y - cy) + cy]"

text \<open>The boundary of the unrotated rectangle with bottom-left corner \<open>(lon0, lat0)\<close>,
  sampled with \<open>n\<close> points per edge: from the bottom-left corner right along the bottom
  edge, up the right edge, left along the top edge and down the left edge. Each edge starts
  at its corner and stops one sample before the next corner.\<close>

definition boundary_path :: "real \<Rightarrow> real \<Rightarrow> real \<Rightarrow> real \<Rightarrow> nat \<Rightarrow> (real \<times> real) list" where
  "boundary_path lon0 lat0 w h n =
     map (\<lambda>i. (lon0 + real i * w / real n, lat0)) [0..<n] @
     map (\<lambda>i. (lon0 + w, lat0 + real i * h / real n)) [0..<n] @
     map (\<lambda>i. (lon0 + w - real i * w / real n, lat0 + h)) [0..<n] @
     map (\<lambda>i. (lon0, lat0 + h - real i * h / real n)) [0..<n]"

text \<open>The standard counter-clockwise rotation matrix.\<close>

definition ccw_matrix :: "real \<Rightarrow> real list list" where
  "ccw_matrix t = [[cos t, - sin t], [sin t, cos t]]"

text \<open>The centroid of a path of shape (N, 2): the arithmetic mean of its vertices.\<close>

definition centroid :: "real list list \<Rightarrow> real list" where
  "centroid vs = map (\<lambda>j. sum_list (column vs j) / real (length vs)) [0..<2]"

section \<open>Closed forms\<close>

lemma bind_err_Inr [simp]: "bind_err (Inr v) f = f v"
  by (simp add: bind_err_def)

lemma bind_err_Inl [simp]: "bind_err (Inl e) f = Inl e"
  by (simp add: bind_err_def)

lemma nat_int_Suc: "nat (int n + 1) = Suc n"
  by simp

text \<open>The samples of \<open>np_linspace\<close> are equally spaced, also at the overwritten end.\<close>

lemma linspace_closed:
  "np_linspace start stop (int n + 1) =
     Inr (map (\<lambda>i. start + real i * (stop - start) / real n) [0..<Suc n])"
proof (cases "n = 0")
  case True
  then show ?thesis by (simp add: np_linspace_def)
next
  case False
  then have n: "0 < n" by simp
  show ?thesis
    unfolding np_linspace_def Let_def nat_int_Suc
    using n
    apply (simp del: upt_Suc)
    apply (intro conjI impI)
     apply (rule nth_equalityI)
      apply (simp del: upt_Suc)
     apply (simp del: upt_Suc add: nth_list_update)
    apply (rule nth_equalityI)
     apply (simp del: upt_Suc)
    apply (simp del: upt_Suc add: nth_list_update)
    done
qed

lemma np_repeat_nat: "np_repeat x (int n) = Inr (replicate n x)"
  by (simp add: np_repeat_def)

lemma index_last_upt: "index_last (map f [0..<Suc n]) = Inr (f n)"
  by (simp add: index_last_def)

lemma index_first_upt: "index_first (map f [0..<Suc n]) = Inr (f 0)"
  by (simp add: index_first_def upt_conv_Cons del: upt_Suc)

lemma butlast_map_upt: "butlast (map f [0..<Suc n]) = map f [0..<n]"
  by simp

lemma tl_map_upt: "tl (map f [0..<Suc n]) = map f [Suc 0..<Suc n]"
  by (simp add: upt_conv_Cons del: upt_Suc)

lemma trace_path_closed:
  "trace_path lon0 lat0 w h (int n) =
     Inr [map (\<lambda>i. lon0 + real i * w / real n) [0..<n] @
          replicate n (lon0 + real n * w / real n) @
          rev (map (\<lambda>i. lon0 + real i * w / real n) [Suc 0..<Suc n]) @
          replicate n lon0,
          replicate n lat0 @
          map (\<lambda>i. lat0 + real i * h / real n) [0..<n] @
          replicate n (lat0 + real n * h / real n) @
          rev (map (\<lambda>i. lat0 + real i * h / real n) [Suc 0..<Suc n])]"
  unfolding trace_path_def linspace_closed Let_def
  by (simp add: o_def butlast_map_upt tl_map_upt index_last_upt index_first_upt
      np_repeat_nat del: upt_Suc map_append)

lemma np_T_center: "np_T [[cx, cy]] = [[cx], [cy]]"
  by (simp add: np_T_def ncols_def column_def upt_conv_Cons)

lemma broadcast_col_2:
  "broadcast_col f [xs, ys] [[cx], [cy]] = [map (\<lambda>x. f x cx) xs, map (\<lambda>y. f y cy) ys]"
  by (simp add: broadcast_col_def)

lemma matmul_2:
  "matmul [[a, b], [c, d]] [xs, ys] =
     [map (\<lambda>j. a * xs ! j + b * ys ! j) [0..<length xs],
      map (\<lambda>j. c * xs ! j + d * ys ! j) [0..<length xs]]"
  by (simp add: matmul_def ncols_def column_def dot_def)

lemma np_T_2: "np_T [xs, ys] = map (\<lambda>j. [xs ! j, ys ! j]) [0..<length xs]"
  by (simp add: np_T_def ncols_def column_def)

lemma rotate_with_closed:
  assumes "length lat = length lon"
  shows "rotate_with [[a, b], [c, d]] [[cx, cy]] [lon, lat] =
     map (\<lambda>j. [a * (lon ! j - cx) + b * (lat ! j - cy) + cx,
                c * (lon ! j - cx) + d * (lat ! j - cy) + cy]) [0..<length lon]"
  using assms
  by (simp add: rotate_with_def Let_def np_T_center broadcast_col_2 matmul_2 np_T_2)

lemma rotate_closed:
  assumes "length lat = length lon"
  shows "rotate_quadrangle theta [[cx, cy]] [lon, lat] =
     map (\<lambda>j. rotated_vertex theta cx cy (lon ! j) (lat ! j)) [0..<length lon]"
  using assms
  by (simp add: rotate_quadrangle_def rot_matrix_def rotate_with_closed rotated_vertex_def)

lemma rev_map_upt_Suc: "rev (map f [Suc 0..<Suc n]) = map (\<lambda>i. f (n - i)) [0..<n]"
  by (rule nth_equalityI) (simp_all add: rev_nth Suc_diff_Suc del: upt_Suc)

lemma boundary_path_length: "length (boundary_path lon0 lat0 w h n) = 4 * n"
  by (simp add: boundary_path_def)

text \<open>The array of line 77 holds the longitudes and the latitudes of the boundary.\<close>

lemma trace_path_boundary:
  "trace_path lon0 lat0 w h (int n) =
     Inr [map fst (boundary_path lon0 lat0 w h n), map snd (boundary_path lon0 lat0 w h n)]"
proof (cases "n = 0")
  case True
  then show ?thesis
    using trace_path_closed [of lon0 lat0 w h 0] by (simp add: boundary_path_def)
next
  case False
  then have n: "real n \<noteq> 0" by simp
  have top: "map (\<lambda>i. a + real (n - i) * b / real n) [0..<n] =
             map (\<lambda>i. a + b - real i * b / real n) [0..<n]" for a b
    using n by (simp add: of_nat_diff field_simps)
  show ?thesis
    unfolding trace_path_closed rev_map_upt_Suc boundary_path_def
    using n by (simp add: o_def top map_replicate_const)
qed

lemma mySlit_unfold:
  "mySlit anchor width height theta resolution vertex_unit =
     bind_err (trace_path
        (fst (to_value_pair (Quantity_pair anchor) vertex_unit) - to_value width vertex_unit * 0.5)
        (snd (to_value_pair (Quantity_pair anchor) vertex_unit) - to_value height vertex_unit * 0.5)
        (to_value width vertex_unit) (to_value height vertex_unit) resolution)
       (\<lambda>vertices. Inr (rotate_quadrangle (to_value theta Rad)
          [[fst (to_value_pair (Quantity_pair anchor) vertex_unit),
            snd (to_value_pair (Quantity_pair anchor) vertex_unit)]] vertices))"
  by (simp add: mySlit_def Let_def split: prod.split)

lemma np_T_boundary: "np_T [map fst ps, map snd ps] = map (\<lambda>(x, y). [x, y]) ps"
  unfolding np_T_2 by (rule nth_equalityI) (simp_all add: case_prod_beta)

lemma rotate_boundary:
  "rotate_quadrangle theta [[cx, cy]] [map fst ps, map snd ps] =
     map (\<lambda>(x, y). rotated_vertex theta cx cy x y) ps"
proof -
  have "rotate_quadrangle theta [[cx, cy]] [map fst ps, map snd ps] =
     map (\<lambda>j. rotated_vertex theta cx cy (map fst ps ! j) (map snd ps ! j))
       [0..<length (map fst ps)]"
    by (rule rotate_closed) simp
  also have "\<dots> = map (\<lambda>(x, y). rotated_vertex theta cx cy x y) ps"
    by (rule nth_equalityI) (simp_all add: case_prod_beta)
  finally show ?thesis .
qed

text \<open>For a resolution that is not negative the constructor returns the rotated boundary.\<close>

lemma mySlit_closed:
  fixes anchor width height theta vertex_unit
  defines "c \<equiv> to_value_pair (Quantity_pair anchor) vertex_unit"
    and "w \<equiv> to_value width vertex_unit"
    and "h \<equiv> to_value height vertex_unit"
  shows "mySlit anchor width height theta (int n) vertex_unit =
     Inr (map (\<lambda>(x, y). rotated_vertex (to_value theta Rad) (fst c) (snd c) x y)
            (boundary_path (fst c - w / 2) (snd c - h / 2) w h n))"
  unfolding c_def w_def h_def mySlit_unfold trace_path_boundary
  by (simp add: rotate_boundary)

lemma resolution_nat:
  assumes "(1::int) \<le> resolution"
  obtains n where "resolution = int n" and "1 \<le> n"
  using assms by (metis nat_le_iff nat_one_as_int int_nat_eq order.trans zero_le_one)

lemma rotated_vertex_zero: "rotated_vertex 0 cx cy x y = [x, y]"
  by (simp add: rotated_vertex_def)

lemma to_value_neg: "to_value (- v, u) u' = - to_value (v, u) u'"
  by simp

lemma rotated_vertex_back:
  "rotated_vertex (- t) cx cy (rotated_vertex t cx cy x y ! 0)
     (rotated_vertex t cx cy x y ! Suc 0) = [x, y]"
proof -
  have u: "cos t * cos t + sin t * sin t = 1"
    using sin_cos_squared_add2 [of t] by (simp add: power2_eq_square)
  have "cos t * (cos t * (x - cx) + sin t * (y - cy)) - sin t * (- sin t * (x - cx) + cos t * (y - cy))
      = (cos t * cos t + sin t * sin t) * (x - cx)"
    by algebra
  moreover have "sin t * (cos t * (x - cx) + sin t * (y - cy)) + cos t * (- sin t * (x - cx) + cos t * (y - cy))
      = (cos t * cos t + sin t * sin t) * (y - cy)"
    by algebra
  ultimately show ?thesis
    unfolding u by (simp add: rotated_vertex_def)
qed

lemma np_T_rotated:
  assumes "ps \<noteq> []"
  shows "np_T (map (\<lambda>(x, y). rotated_vertex t cx cy x y) ps) =
     [map (\<lambda>(x, y). rotated_vertex t cx cy x y ! 0) ps,
      map (\<lambda>(x, y). rotated_vertex t cx cy x y ! 1) ps]"
proof -
  obtain p ps' where ps: "ps = p # ps'"
    using assms by (cases ps) auto
  have "ncols (map (\<lambda>(x, y). rotated_vertex t cx cy x y) ps) = 2"
    by (simp add: ps ncols_def rotated_vertex_def case_prod_beta)
  then show ?thesis
    by (simp add: np_T_def column_def upt_conv_Cons o_def case_prod_beta)
qed

lemma rotate_back_path:
  assumes "ps \<noteq> []"
  shows "rotate_quadrangle (- t) [[cx, cy]] (np_T (map (\<lambda>(x, y). rotated_vertex t cx cy x y) ps))
     = map (\<lambda>(x, y). [x, y]) ps"
proof -
  have "rotate_quadrangle (- t) [[cx, cy]] (np_T (map (\<lambda>(x, y). rotated_vertex t cx cy x y) ps))
    = map (\<lambda>j. rotated_vertex (- t) cx cy
             (map (\<lambda>(x, y). rotated_vertex t cx cy x y ! 0) ps ! j)
             (map (\<lambda>(x, y). rotated_vertex t cx cy x y ! 1) ps ! j))
        [0..<length (map (\<lambda>(x, y). rotated_vertex t cx cy x y ! 0) ps)]"
    unfolding np_T_rotated [OF assms] by (rule rotate_closed) simp
  also have "\<dots> = map (\<lambda>(x, y). [x, y]) ps"
    by (rule nth_equalityI) (simp_all add: case_prod_beta rotated_vertex_back)
  finally show ?thesis .
qed

lemma sum_list_const: "sum_list (map (\<lambda>i. c) xs) = real (length xs) * (c::real)"
  by (induction xs) (simp_all add: algebra_simps)

lemma sum_list_opposite:
  "sum_list (map (\<lambda>i. a + f i) xs) + sum_list (map (\<lambda>i. b - f i) xs)
     = real (length xs) * (a + b :: real)"
  by (induction xs) (simp_all add: algebra_simps)

lemma sum_fst_boundary:
  "sum_list (map fst (boundary_path lon0 lat0 w h n)) = real (4 * n) * (lon0 + w / 2)"
proof -
  have "sum_list (map (\<lambda>i. lon0 + real i * w / real n) [0..<n]) +
        sum_list (map (\<lambda>i. lon0 + w - real i * w / real n) [0..<n]) = real n * (lon0 + (lon0 + w))"
    using sum_list_opposite [of lon0 "\<lambda>i. real i * w / real n" "[0..<n]" "lon0 + w"] by simp
  then show ?thesis
    by (simp add: boundary_path_def o_def sum_list_const algebra_simps)
qed

lemma sum_snd_boundary:
  "sum_list (map snd (boundary_path lon0 lat0 w h n)) = real (4 * n) * (lat0 + h / 2)"
proof -
  have "sum_list (map (\<lambda>i. lat0 + real i * h / real n) [0..<n]) +
        sum_list (map (\<lambda>i. lat0 + h - real i * h / real n) [0..<n]) = real n * (lat0 + (lat0 + h))"
    using sum_list_opposite [of lat0 "\<lambda>i. real i * h / real n" "[0..<n]" "lat0 + h"] by simp
  then show ?thesis
    by (simp add: boundary_path_def o_def sum_list_const algebra_simps)
qed

lemma sum_list_affine:
  "sum_list (map (\<lambda>p. a * (fst p - cx) + b * (snd p - cy) + c) ps) =
     a * (sum_list (map fst ps) - real (length ps) * cx) +
     b * (sum_list (map snd ps) - real (length ps) * cy) + real (length ps) * (c::real)"
  by (induction ps) (simp_all add: algebra_simps)

lemma column_rotated:
  "column (map (\<lambda>(x, y). rotated_vertex t cx cy x y) ps) 0 =
     map (\<lambda>p. cos t * (fst p - cx) + sin t * (snd p - cy) + cx) ps"
  "column (map (\<lambda>(x, y). rotated_vertex t cx cy x y) ps) (Suc 0) =
     map (\<lambda>p. - sin t * (fst p - cx) + cos t * (snd p - cy) + cy) ps"
  by (simp_all add: column_def rotated_vertex_def case_prod_beta)

lemma centroid_rotated_boundary:
  assumes "1 \<le> n"
  shows "centroid (map (\<lambda>(x, y). rotated_vertex t cx cy x y)
           (boundary_path (cx - w / 2) (cy - h / 2) w h n)) = [cx, cy]"
proof -
  let ?vs = "map (\<lambda>(x, y). rotated_vertex t cx cy x y)
           (boundary_path (cx - w / 2) (cy - h / 2) w h n)"
  have n: "real n \<noteq> 0" using assms by simp
  have c0: "sum_list (column ?vs 0) = real (4 * n) * cx"
    unfolding column_rotated sum_list_affine sum_fst_boundary sum_snd_boundary
      boundary_path_length
    by simp
  have c1: "sum_list (column ?vs (Suc 0)) = real (4 * n) * cy"
    unfolding column_rotated sum_list_affine sum_fst_boundary sum_snd_boundary
      boundary_path_length
    by simp
  have l: "length ?vs = 4 * n"
    by (simp add: boundary_path_length)
  show ?thesis
    unfolding centroid_def
    using n by (simp add: upt_conv_Cons c0 c1 boundary_path_length)
qed

lemma sample_not_end:
  assumes "w \<noteq> 0" and "i < n"
  shows "real i * w / real n \<noteq> w" and "w \<noteq> real i * w / real n"
  using assms by (auto simp add: field_simps)

lemma boundary_path_distinct:
  assumes "0 < w" and "0 < h"
  shows "distinct (boundary_path lon0 lat0 w h n)"
proof -
  have w: "w \<noteq> 0" and h: "h \<noteq> 0" using assms by simp_all
  have e1: "distinct (map (\<lambda>i. (lon0 + real i * w / real n, lat0)) [0..<n])"
    using w by (auto simp add: distinct_map inj_on_def)
  have e2: "distinct (map (\<lambda>i. (lon0 + w, lat0 + real i * h / real n)) [0..<n])"
    using h by (auto simp add: distinct_map inj_on_def)
  have e3: "distinct (map (\<lambda>i. (lon0 + w - real i * w / real n, lat0 + h)) [0..<n])"
    using w by (auto simp add: distinct_map inj_on_def)
  have e4: "distinct (map (\<lambda>i. (lon0, lat0 + h - real i * h / real n)) [0..<n])"
    using h by (auto simp add: distinct_map inj_on_def)
  show ?thesis
    unfolding boundary_path_def
    using e1 e2 e3 e4 w h sample_not_end [OF w] sample_not_end [OF h]
    by (auto simp add: image_iff)
qed

lemma distinct_rows:
  assumes "distinct ps"
  shows "distinct (map (\<lambda>(x, y). [x, y]) ps)"
  using assms by (auto simp add: distinct_map inj_on_def)

lemma trace_path_minus_one: "trace_path lon0 lat0 w h (- 1) = Inl IndexError"
  by (simp add: trace_path_def np_linspace_def index_last_def)

lemma trace_path_below:
  "resolution < - 1 \<Longrightarrow> trace_path lon0 lat0 w h resolution = Inl ValueError"
  by (simp add: trace_path_def np_linspace_def)

section \<open>The rotation\<close>

text \<open>
  C1. When the resolution is at least 1, the constructor succeeds, and every vertex it
  returns is the vertex of the unrotated path (the transpose of the array of line 77) at
  the same position, transformed by \<open>v' = R(theta) (v - center) + center\<close> with
  \<open>R(theta) = [[cos theta, sin theta], [- sin theta, cos theta]]\<close> and \<open>theta\<close> in
  radians.
\<close>

theorem rotation_about_center:
  fixes anchor width height theta vertex_unit
  defines "c \<equiv> to_value_pair (Quantity_pair anchor) vertex_unit"
    and "w \<equiv> to_value width vertex_unit"
    and "h \<equiv> to_value height vertex_unit"
  assumes "1 \<le> resolution"
  shows "\<exists>m vs. trace_path (fst c - w * 0.5) (snd c - h * 0.5) w h resolution = Inr m \<and>
     mySlit anchor width height theta resolution vertex_unit = Inr vs \<and>
     vs = map (\<lambda>v. rotated_vertex (to_value theta Rad) (fst c) (snd c) (v ! 0) (v ! 1))
            (np_T m)"
proof -
  obtain n where n: "resolution = int n"
    using assms(4) by (rule resolution_nat)
  show ?thesis
    unfolding c_def w_def h_def n mySlit_closed trace_path_boundary
    by (simp add: np_T_boundary o_def case_prod_beta)
qed

theorem rotation_about_center_witness:
  "\<exists>m vs. trace_path 9 18 2 4 1 = Inr m \<and>
     mySlit ((10, Deg), (20, Deg)) (2, Deg) (4, Deg) (pi / 2, Rad) 1 Deg = Inr vs \<and>
     vs = map (\<lambda>v. rotated_vertex (pi / 2) 10 20 (v ! 0) (v ! 1)) (np_T m)"
  using rotation_about_center [where resolution = 1 and anchor = "((10, Deg), (20, Deg))"
      and vertex_unit = Deg and width = "(2, Deg)" and height = "(4, Deg)"
      and theta = "(pi / 2, Rad)"]
  by simp

text \<open>
  C8. The matrix of the constructor is the standard counter-clockwise rotation matrix at
  the negated angle, so the constructor's rotation by \<open>theta\<close> is the standard rotation
  by \<open>- theta\<close> about the same centre.
\<close>

theorem rot_matrix_ccw_negated:
  "rot_matrix theta = ccw_matrix (- theta) \<and>
   rotate_quadrangle theta center vertices = rotate_with (ccw_matrix (- theta)) center vertices"
  by (simp add: rot_matrix_def ccw_matrix_def rotate_quadrangle_def)

text \<open>
  C5. When the resolution is at least 1, applying the rotation step of the constructor with
  the negated angle and the same centre to the vertices built with the angle \<open>th\<close>
  gives the vertices built with the angle 0. The equality is exact in real arithmetic.
\<close>

theorem rotate_back:
  fixes anchor width height vertex_unit
  defines "c \<equiv> to_value_pair (Quantity_pair anchor) vertex_unit"
  assumes "1 \<le> resolution"
  shows "\<exists>vs vs0.
     mySlit anchor width height (th, tu) resolution vertex_unit = Inr vs \<and>
     mySlit anchor width height (0, tu) resolution vertex_unit = Inr vs0 \<and>
     rotate_quadrangle (to_value (- th, tu) Rad) [[fst c, snd c]] (np_T vs) = vs0"
proof -
  obtain n where n: "resolution = int n" and n1: "1 \<le> n"
    using assms(2) by (rule resolution_nat)
  have ne: "boundary_path lon0 lat0 a b n \<noteq> []" for lon0 lat0 a b
    using boundary_path_length [of lon0 lat0 a b n] n1 by auto
  have z: "to_value (0, tu) Rad = 0" by simp
  show ?thesis
    unfolding c_def n mySlit_closed to_value_neg z
    by (simp add: rotate_back_path [OF ne] rotated_vertex_zero case_prod_beta
        del: to_value.simps)
qed

theorem rotate_back_witness:
  "\<exists>vs vs0.
     mySlit ((10, Deg), (20, Deg)) (2, Deg) (4, Deg) (pi / 2, Rad) 1 Deg = Inr vs \<and>
     mySlit ((10, Deg), (20, Deg)) (2, Deg) (4, Deg) (0, Rad) 1 Deg = Inr vs0 \<and>
     rotate_quadrangle (- (pi / 2)) [[10, 20]] (np_T vs) = vs0"
  using rotate_back [where resolution = 1 and anchor = "((10, Deg), (20, Deg))"
      and vertex_unit = Deg and width = "(2, Deg)" and height = "(4, Deg)"
      and th = "pi / 2" and tu = Rad]
  by simp

section \<open>The path\<close>

text \<open>
  C4. With the angle 0 and a resolution of at least 1, the vertices at the positions 0,
  resolution, 2 * resolution and 3 * resolution are the four corners of the rectangle, in
  the order bottom-left, bottom-right, top-right, top-left.
\<close>

theorem corners_at_zero:
  fixes anchor width height vertex_unit
  defines "c \<equiv> to_value_pair (Quantity_pair anchor) vertex_unit"
    and "w \<equiv> to_value width vertex_unit"
    and "h \<equiv> to_value height vertex_unit"
  assumes "1 \<le> resolution"
  shows "\<exists>vs. mySlit anchor width height (0, tu) resolution vertex_unit = Inr vs \<and>
     vs ! 0 = [fst c - w / 2, snd c - h / 2] \<and>
     vs ! nat resolution = [fst c + w / 2, snd c - h / 2] \<and>
     vs ! nat (2 * resolution) = [fst c + w / 2, snd c + h / 2] \<and>
     vs ! nat (3 * resolution) = [fst c - w / 2, snd c + h / 2]"
proof -
  obtain n where n: "resolution = int n" and n1: "1 \<le> n"
    using assms(4) by (rule resolution_nat)
  have i2: "nat (2 * int n) = n + n" and i3: "nat (3 * int n) = n + n + n" by simp_all
  have bp0: "boundary_path (cx - a / 2) (cy - b / 2) a b n ! 0 = (cx - a / 2, cy - b / 2)"
   and bp1: "boundary_path (cx - a / 2) (cy - b / 2) a b n ! n = (cx + a / 2, cy - b / 2)"
   and bp2: "boundary_path (cx - a / 2) (cy - b / 2) a b n ! (n + n) = (cx + a / 2, cy + b / 2)"
   and bp3: "boundary_path (cx - a / 2) (cy - b / 2) a b n ! (n + n + n) = (cx - a / 2, cy + b / 2)"
    for cx cy a b :: real
    using n1 by (simp_all add: boundary_path_def nth_append)
  show ?thesis
    unfolding c_def w_def h_def n mySlit_closed
    using n1
    by (simp add: i2 i3 boundary_path_length bp0 bp1 bp2 bp3 rotated_vertex_zero)
qed

theorem corners_at_zero_witness:
  "\<exists>vs. mySlit ((10, Deg), (20, Deg)) (2, Deg) (4, Deg) (0, Deg) 3 Deg = Inr vs \<and>
     vs ! 0 = [9, 18] \<and> vs ! 3 = [11, 18] \<and> vs ! 6 = [11, 22] \<and> vs ! 9 = [9, 22]"
  using corners_at_zero [where resolution = 3 and anchor = "((10, Deg), (20, Deg))"
      and vertex_unit = Deg and width = "(2, Deg)" and height = "(4, Deg)" and tu = Deg]
  by simp

text \<open>
  C6. When the resolution is at least 1, the constructor returns 4 * resolution vertices
  whose centroid is the centre of the quadrangle, for every angle.
\<close>

theorem centroid_is_center:
  fixes anchor width height theta vertex_unit
  defines "c \<equiv> to_value_pair (Quantity_pair anchor) vertex_unit"
  assumes "1 \<le> resolution"
  shows "\<exists>vs. mySlit anchor width height theta resolution vertex_unit = Inr vs \<and>
     length vs = nat (4 * resolution) \<and> centroid vs = [fst c, snd c]"
proof -
  obtain n where n: "resolution = int n" and n1: "1 \<le> n"
    using assms(2) by (rule resolution_nat)
  show ?thesis
    unfolding c_def n mySlit_closed
    by (simp add: centroid_rotated_boundary [OF n1] boundary_path_length del: to_value.simps)
qed

theorem centroid_is_center_witness:
  "\<exists>vs. mySlit ((10, Deg), (20, Deg)) (2, Deg) (4, Deg) (pi / 2, Rad) 3 Deg = Inr vs \<and>
     length vs = 12 \<and> centroid vs = [10, 20]"
  using centroid_is_center [where resolution = 3 and anchor = "((10, Deg), (20, Deg))"
      and vertex_unit = Deg and width = "(2, Deg)" and height = "(4, Deg)"
      and theta = "(pi / 2, Rad)"]
  by simp

text \<open>
  C7. With the resolution 1 the constructor returns four vertices, the corners of the
  rectangle rotated about the centre; with the angle 0 they are the corners themselves,
  and for the centre (10, 20), the width 2 and the height 4, all in degrees, they are
  (9, 18), (11, 18), (11, 22), (9, 22).
\<close>

theorem resolution_one:
  fixes anchor width height theta vertex_unit
  defines "c \<equiv> to_value_pair (Quantity_pair anchor) vertex_unit"
    and "w \<equiv> to_value width vertex_unit"
    and "h \<equiv> to_value height vertex_unit"
    and "t \<equiv> to_value theta Rad"
  shows "mySlit anchor width height theta 1 vertex_unit =
      Inr [rotated_vertex t (fst c) (snd c) (fst c - w / 2) (snd c - h / 2),
           rotated_vertex t (fst c) (snd c) (fst c + w / 2) (snd c - h / 2),
           rotated_vertex t (fst c) (snd c) (fst c + w / 2) (snd c + h / 2),
           rotated_vertex t (fst c) (snd c) (fst c - w / 2) (snd c + h / 2)] \<and>
    mySlit anchor width height (0, tu) 1 vertex_unit =
      Inr [[fst c - w / 2, snd c - h / 2], [fst c + w / 2, snd c - h / 2],
           [fst c + w / 2, snd c + h / 2], [fst c - w / 2, snd c + h / 2]] \<and>
    mySlit ((10, Deg), (20, Deg)) (2, Deg) (4, Deg) (0, Deg) 1 Deg =
      Inr [[9, 18], [11, 18], [11, 22], [9, 22]]"
proof -
  have one: "(1::int) = int 1" by simp
  have bp: "boundary_path (cx - a / 2) (cy - b / 2) a b 1 =
      [(cx - a / 2, cy - b / 2), (cx + a / 2, cy - b / 2),
       (cx + a / 2, cy + b / 2), (cx - a / 2, cy + b / 2)]"
    for cx cy a b :: real
    by (simp add: boundary_path_def)
  show ?thesis
    unfolding c_def w_def h_def t_def
    apply (subst one)+
    unfolding mySlit_closed bp
    by (simp add: rotated_vertex_zero)
qed

text \<open>
  C3. When the resolution is at least 1 and the width and the height are positive, the
  constructor returns 4 * resolution vertices, and the path before the rotation (the
  transpose of the array of line 77) is \<open>boundary_path\<close>: it starts at the bottom-left
  corner and runs right along the bottom edge, up the right edge, left along the top edge
  and down the left edge. No vertex occurs twice in it, so no corner is repeated where two
  edges meet.
\<close>

theorem path_traces_boundary:
  fixes anchor width height theta vertex_unit
  defines "c \<equiv> to_value_pair (Quantity_pair anchor) vertex_unit"
    and "w \<equiv> to_value width vertex_unit"
    and "h \<equiv> to_value height vertex_unit"
  assumes "1 \<le> resolution" and "0 < w" and "0 < h"
  shows "\<exists>m vs. mySlit anchor width height theta resolution vertex_unit = Inr vs \<and>
     length vs = nat (4 * resolution) \<and>
     trace_path (fst c - w * 0.5) (snd c - h * 0.5) w h resolution = Inr m \<and>
     np_T m = map (\<lambda>(x, y). [x, y])
                (boundary_path (fst c - w * 0.5) (snd c - h * 0.5) w h (nat resolution)) \<and>
     distinct (np_T m)"
proof -
  obtain n where n: "resolution = int n" and n1: "1 \<le> n"
    using assms(4) by (rule resolution_nat)
  have d: "distinct (map (\<lambda>(x, y). [x, y])
      (boundary_path (fst c - w * 0.5) (snd c - h * 0.5) w h n))"
    using assms(5,6) by (intro distinct_rows boundary_path_distinct)
  then show ?thesis
    unfolding c_def w_def h_def n mySlit_closed trace_path_boundary
    by (simp add: np_T_boundary boundary_path_length del: to_value.simps)
qed

theorem path_traces_boundary_witness:
  "\<exists>m vs. mySlit ((10, Deg), (20, Deg)) (2, Deg) (4, Deg) (pi / 2, Rad) 2 Deg = Inr vs \<and>
     length vs = 8 \<and>
     trace_path 9 18 2 4 2 = Inr m \<and>
     np_T m = [[9, 18], [10, 18], [11, 18], [11, 20], [11, 22], [10, 22], [9, 22], [9, 20]] \<and>
     distinct (np_T m)"
  using path_traces_boundary [where resolution = 2 and anchor = "((10, Deg), (20, Deg))"
      and vertex_unit = Deg and width = "(2, Deg)" and height = "(4, Deg)"
      and theta = "(pi / 2, Rad)"]
  by (simp add: boundary_path_def upt_conv_Cons)

section \<open>Input that the specification calls invalid\<close>

text \<open>
  C2, as the code has it. The constructor checks neither the dimensions nor the
  resolution. Its vertex computation fails exactly when the resolution is negative, with
  the IndexError of \<^verbatim>\<open>lon_seq[-1]\<close> for the resolution -1 and the ValueError of
  \<^verbatim>\<open>np.linspace\<close> below -1, and a failure carries no vertices. For every other input,
  whatever the width and the height are, it returns 4 * resolution vertices; for the
  resolution 0 that is the empty path.
\<close>

theorem construction_unvalidated:
  "case mySlit anchor width height theta resolution vertex_unit of
     Inl e \<Rightarrow> resolution < 0 \<and> e = (if resolution = - 1 then IndexError else ValueError)
   | Inr vs \<Rightarrow> 0 \<le> resolution \<and> length vs = nat (4 * resolution)"
proof -
  consider "resolution < - 1" | "resolution = - 1" | "0 \<le> resolution" by linarith
  then show ?thesis
  proof cases
    case 1
    then show ?thesis by (simp add: mySlit_unfold trace_path_below)
  next
    case 2
    then show ?thesis by (simp add: mySlit_unfold trace_path_minus_one)
  next
    case 3
    then obtain n where n: "resolution = int n"
      using nonneg_int_cases by blast
    show ?thesis
      unfolding n mySlit_closed by (simp add: boundary_path_length)
  qed
qed

text \<open>
  The width 0, the height -1 and the resolution 0 are accepted: the vertex computation
  returns a collapsed rectangle, a rectangle traced from its top edge, and the empty path.
\<close>

theorem invalid_input_accepted:
  "mySlit ((10, Deg), (20, Deg)) (0, Deg) (4, Deg) (0, Deg) 1 Deg =
     Inr [[10, 18], [10, 18], [10, 22], [10, 22]] \<and>
   mySlit ((10, Deg), (20, Deg)) (2, Deg) (- 1, Deg) (0, Deg) 1 Deg =
     Inr [[9, 41 / 2], [11, 41 / 2], [11, 39 / 2], [9, 39 / 2]] \<and>
   mySlit ((10, Deg), (20, Deg)) (2, Deg) (4, Deg) (0, Deg) 0 Deg = Inr []"
proof -
  have one: "(1::int) = int 1" and zero: "(0::int) = int 0" by simp_all
  have a: "mySlit ((10, Deg), (20, Deg)) (0, Deg) (4, Deg) (0, Deg) 1 Deg =
     Inr [[10, 18], [10, 18], [10, 22], [10, 22]]"
    apply (subst one)
    unfolding mySlit_closed by (simp add: boundary_path_def rotated_vertex_def)
  have b: "mySlit ((10, Deg), (20, Deg)) (2, Deg) (- 1, Deg) (0, Deg) 1 Deg =
     Inr [[9, 41 / 2], [11, 41 / 2], [11, 39 / 2], [9, 39 / 2]]"
    apply (subst one)
    unfolding mySlit_closed by (simp add: boundary_path_def rotated_vertex_def)
  have c: "mySlit ((10, Deg), (20, Deg)) (2, Deg) (4, Deg) (0, Deg) 0 Deg = Inr []"
    apply (subst zero)
    unfolding mySlit_closed by (simp add: boundary_path_def)
  show ?thesis using a b c by simp
qed

section \<open>The centre and the patches of main\<close>

text \<open>
  C9. The correction \<^verbatim>\<open>--ra-corr\<close> is added to the declination of the centre of the
  slit and the correction \<^verbatim>\<open>--dec-corr\<close> to its right ascension. In degrees, as the
  constructor reads the centre, the longitude is 15 RA + dec_corr / 3600 and the latitude
  DEC + ra_corr / 3600.
\<close>

theorem corrections_swapped:
  "radec_slit hdr args =
     ((RA hdr + to_value (dec_corr args, Arcsec) Hourangle, Hourangle),
      (DEC hdr + to_value (ra_corr args, Arcsec) Deg, Deg)) \<and>
   to_value_pair (Quantity_pair (radec_slit hdr args)) Deg =
     (15 * RA hdr + dec_corr args / 3600, DEC hdr + ra_corr args / 3600)"
  by (simp add: radec_slit_def Let_def field_simps)

text \<open>
  C10. Every run of \<^verbatim>\<open>main\<close> adds exactly two patches: the slit, built with the angle
  PA degrees, and the marker, built with the angle PA + 90 degrees, both from the same
  anchor. Both have the centre of the slit as their centroid.
\<close>

theorem two_quadrangles:
  "\<exists>s c. main hdr args = Inr [\<lparr>xy = s, edgecolor = ''tab:olive''\<rparr>, \<lparr>xy = c, edgecolor = ''red''\<rparr>] \<and>
     mySlit (radec_slit hdr args) (1, Arcsec) (3, Arcmin) (POSANG hdr, Deg) 100 Deg = Inr s \<and>
     mySlit (radec_slit hdr args) (0.1, Arcsec) (0.1, Arcmin) (POSANG hdr + 90, Deg) 100 Deg = Inr c \<and>
     centroid s = [fst (to_value_pair (Quantity_pair (radec_slit hdr args)) Deg),
                   snd (to_value_pair (Quantity_pair (radec_slit hdr args)) Deg)] \<and>
     centroid c = centroid s"
proof -
  have h: "(100::int) = int 100" by simp
  have n: "1 \<le> (100::nat)" by simp
  show ?thesis
    unfolding main_def Let_def
    apply (subst h)+
    unfolding mySlit_closed
    by (simp add: centroid_rotated_boundary [OF n] del: to_value.simps to_value_pair.simps Quantity_pair.simps)
qed

end
